theory Spec2Isabelle
  imports Complex_Main
begin

section \<open>The meeting scheduler form (src/meeting-scheduler.tsx)\<close>

text \<open>
  A shallow embedding of the component \<^verbatim>\<open>MeetingScheduler\<close>: the form values, the zod
  schema \<^verbatim>\<open>formSchema\<close>, the cost effect, \<^verbatim>\<open>getSuggestedTimes\<close>, \<^verbatim>\<open>onSubmit\<close>,
  \<^verbatim>\<open>applyTemplate\<close> and the event handlers written inline in the JSX.

  Conventions.
  \<^item> A JavaScript string is a \<^typ>\<open>string\<close>, its length the length of the list (one
    \<^typ>\<open>char\<close> for one code unit); \<^verbatim>\<open>undefined\<close> for a field is \<^term>\<open>None\<close>.
  \<^item> A \<^verbatim>\<open>Date\<close> is its time value, an \<^typ>\<open>int\<close> of milliseconds since the epoch
    (the calendar only hands out valid dates).
  \<^item> What the component does to the outside (the request, the console, the confetti, the
    messages put next to the fields) is a list of events returned beside the new state.
  \<^item> The email check of \<^verbatim>\<open>z.string().email()\<close> belongs to the zod library, not to this
    file of the repository: the schema takes it as the parameter \<open>email\<close>.
\<close>

subsection \<open>Form values\<close>

text \<open>The object held by \<^verbatim>\<open>useForm\<close>: the keys of \<^verbatim>\<open>formSchema\<close>, lines 24 to 43.\<close>

record draft =
  title :: string
  description :: "string option"
  date :: "int option"
  duration :: "string option"
  participants :: "string list"
  timezone :: "string option"
  priority :: string
  themeColor :: string

text \<open>The record logged on scheduling, \<^verbatim>\<open>{ ...values, time: selectedTime }\<close>.\<close>

record scheduled = draft +
  time :: string

text \<open>\<^verbatim>\<open>defaultValues\<close>, lines 97 to 104: no \<^verbatim>\<open>date\<close> and no \<^verbatim>\<open>duration\<close> key.\<close>

definition defaultValues :: draft where
  "defaultValues =
     \<lparr>title = '''', description = Some '''', date = None, duration = None,
      participants = [''''], timezone = Some ''UTC'', priority = ''medium'',
      themeColor = ''blue''\<rparr>"

subsection \<open>The constant tables\<close>

definition durations :: "(string \<times> string) list" where
  "durations =
     [(''15'', ''15 minutes''), (''30'', ''30 minutes''),
      (''45'', ''45 minutes''), (''60'', ''1 hour'')]"

text \<open>
  An entry of \<^verbatim>\<open>meetingTemplates\<close>. Its keys are \<^verbatim>\<open>name\<close>, \<^verbatim>\<open>duration\<close>,
  \<^verbatim>\<open>description\<close>, \<^verbatim>\<open>priority\<close>; the last three carry the prefix \<open>t_\<close> here because the
  form values already use these names.
\<close>

record template =
  name :: string
  t_duration :: string
  t_description :: string
  t_priority :: string

definition quickSync :: template where
  "quickSync =
     \<lparr>name = ''Quick Sync'', t_duration = ''15'',
      t_description = ''Brief alignment meeting'', t_priority = ''low''\<rparr>"

definition teamPlanning :: template where
  "teamPlanning =
     \<lparr>name = ''Team Planning'', t_duration = ''60'',
      t_description = ''Detailed team planning session'', t_priority = ''medium''\<rparr>"

definition clientPresentation :: template where
  "clientPresentation =
     \<lparr>name = ''Client Presentation'', t_duration = ''45'',
      t_description = ''Important client meeting'', t_priority = ''high''\<rparr>"

definition meetingTemplates :: "template list" where
  "meetingTemplates = [quickSync, teamPlanning, clientPresentation]"

definition themeColors :: "(string \<times> string) list" where
  "themeColors =
     [(''Blue'', ''blue''), (''Purple'', ''purple''), (''Green'', ''green''), (''Red'', ''red'')]"

subsection \<open>The schema\<close>

text \<open>
  A zod issue: the path of the offending value and its message. \<open>Message\<close> carries a
  message written in the source; the other constructors stand for the library's own
  default text of that kind of issue.
\<close>

datatype segment = Key string | Index nat

datatype message = Message string | InvalidEmail | InvalidEnumValue

datatype issue = Issue "segment list" message

text \<open>\<^verbatim>\<open>title: z.string().min(2, { message: ... })\<close>\<close>

definition title_issues :: "string \<Rightarrow> issue list" where
  "title_issues t =
     (if length t < 2
      then [Issue [Key ''title''] (Message ''Meeting title must be at least 2 characters.'')]
      else [])"

text \<open>\<^verbatim>\<open>description: z.string().optional()\<close>: a string or \<^verbatim>\<open>undefined\<close>, both accepted.\<close>

definition description_issues :: "string option \<Rightarrow> issue list" where
  "description_issues d = []"

text \<open>\<^verbatim>\<open>date: z.date({ required_error: "A date is required." })\<close>\<close>

definition date_issues :: "int option \<Rightarrow> issue list" where
  "date_issues d =
     (case d of
        None \<Rightarrow> [Issue [Key ''date''] (Message ''A date is required.'')]
      | Some _ \<Rightarrow> [])"

text \<open>\<^verbatim>\<open>duration: z.string({ required_error: "Please select meeting duration" })\<close>\<close>

definition duration_issues :: "string option \<Rightarrow> issue list" where
  "duration_issues d =
     (case d of
        None \<Rightarrow> [Issue [Key ''duration''] (Message ''Please select meeting duration'')]
      | Some _ \<Rightarrow> [])"

text \<open>
  \<^verbatim>\<open>participants: z.array(z.string().email()).min(1, { message: ... })\<close>: the length
  check of the array, then the element check at every index.
\<close>

definition participants_issues :: "(string \<Rightarrow> bool) \<Rightarrow> string list \<Rightarrow> issue list" where
  "participants_issues email ps =
     (if length ps < 1
      then [Issue [Key ''participants''] (Message ''At least one participant is required'')]
      else []) @
     concat (map (\<lambda>(i, p). if email p then []
                            else [Issue [Key ''participants'', Index i] InvalidEmail])
                 (enumerate 0 ps))"

text \<open>\<^verbatim>\<open>timezone: z.string({ required_error: "Please select a timezone" })\<close>\<close>

definition timezone_issues :: "string option \<Rightarrow> issue list" where
  "timezone_issues z =
     (case z of
        None \<Rightarrow> [Issue [Key ''timezone''] (Message ''Please select a timezone'')]
      | Some _ \<Rightarrow> [])"

text \<open>\<^verbatim>\<open>priority: z.enum(["low", "medium", "high"])\<close>\<close>

definition priority_issues :: "string \<Rightarrow> issue list" where
  "priority_issues p =
     (if p \<in> set [''low'', ''medium'', ''high''] then []
      else [Issue [Key ''priority''] InvalidEnumValue])"

text \<open>\<^verbatim>\<open>themeColor: z.string()\<close>: the value is always a string.\<close>

definition themeColor_issues :: "string \<Rightarrow> issue list" where
  "themeColor_issues c = []"

text \<open>
  Parsing with \<^verbatim>\<open>formSchema\<close>: the keys are checked in the order of the object; with no
  issue the result is a new object built from the parsed keys.
\<close>

definition formSchema_issues :: "(string \<Rightarrow> bool) \<Rightarrow> draft \<Rightarrow> issue list" where
  "formSchema_issues email v =
     title_issues (title v) @ description_issues (description v) @ date_issues (date v) @
     duration_issues (duration v) @ participants_issues email (participants v) @
     timezone_issues (timezone v) @ priority_issues (priority v) @
     themeColor_issues (themeColor v)"

definition formSchema :: "(string \<Rightarrow> bool) \<Rightarrow> draft \<Rightarrow> issue list + draft" where
  "formSchema email v =
     (let issues = formSchema_issues email v
      in if issues = []
         then Inr \<lparr>title = title v, description = description v, date = date v,
                   duration = duration v, participants = participants v,
                   timezone = timezone v, priority = priority v,
                   themeColor = themeColor v\<rparr>
         else Inl issues)"

subsection \<open>The email check of the library\<close>

text \<open>
  The pattern that zod applies for \<^verbatim>\<open>.email()\<close> (releases 3.22 and later of version 3),
  case-insensitively:
  \<^verbatim>\<open>^(?!\.)(?!.*\.\.)([A-Z0-9_'+\-\.]*)[A-Z0-9_+-]@([A-Z0-9][A-Z0-9\-]*\.)+[A-Z]{2,}$\<close>.
  It is used below to instantiate the parameter \<open>email\<close> of the schema.
\<close>

definition isLetter :: "char \<Rightarrow> bool" where
  "isLetter c =
     (let k = (of_char c :: nat) in (65 \<le> k \<and> k \<le> 90) \<or> (97 \<le> k \<and> k \<le> 122))"

definition isDigit :: "char \<Rightarrow> bool" where
  "isDigit c = (let k = (of_char c :: nat) in 48 \<le> k \<and> k \<le> 57)"

definition isAlnum :: "char \<Rightarrow> bool" where
  "isAlnum c = (isLetter c \<or> isDigit c)"

text \<open>The class \<^verbatim>\<open>[A-Z0-9_+-]\<close> that ends the local part.\<close>

definition isLocalEnd :: "char \<Rightarrow> bool" where
  "isLocalEnd c = (isAlnum c \<or> c \<in> set ''_+-'')"

text \<open>The class \<^verbatim>\<open>[A-Z0-9_'+\-\.]\<close> of the local part.\<close>

definition isLocalChar :: "char \<Rightarrow> bool" where
  "isLocalChar c = (isLocalEnd c \<or> c = CHR 0x27 \<or> c = CHR ''.'')"

fun hasDotDot :: "string \<Rightarrow> bool" where
  "hasDotDot (a # b # cs) = ((a = CHR ''.'' \<and> b = CHR ''.'') \<or> hasDotDot (b # cs))"
| "hasDotDot _ = False"

text \<open>Splitting at every occurrence of a character, as the labels of a domain are.\<close>

fun splitAt :: "char \<Rightarrow> string \<Rightarrow> string list" where
  "splitAt sep [] = [[]]"
| "splitAt sep (c # cs) =
     (if c = sep then [] # splitAt sep cs
      else (case splitAt sep cs of
              [] \<Rightarrow> [[c]]
            | w # ws \<Rightarrow> (c # w) # ws))"

text \<open>A label \<^verbatim>\<open>[A-Z0-9][A-Z0-9\-]*\<close> and the final \<^verbatim>\<open>[A-Z]{2,}\<close>.\<close>

definition isLabel :: "string \<Rightarrow> bool" where
  "isLabel l =
     (case l of [] \<Rightarrow> False
      | c # cs \<Rightarrow> isAlnum c \<and> list_all (\<lambda>x. isAlnum x \<or> x = CHR ''-'') cs)"

definition isTopLevel :: "string \<Rightarrow> bool" where
  "isTopLevel l = (2 \<le> length l \<and> list_all isLetter l)"

definition isLocalPart :: "string \<Rightarrow> bool" where
  "isLocalPart l =
     (case rev l of [] \<Rightarrow> False
      | e # _ \<Rightarrow> isLocalEnd e \<and> list_all isLocalChar l \<and> take 1 l \<noteq> ''.'' \<and> \<not> hasDotDot l)"

definition isDomain :: "string \<Rightarrow> bool" where
  "isDomain d =
     (case rev (splitAt (CHR ''.'') d) of
        [] \<Rightarrow> False
      | tld # ls \<Rightarrow> ls \<noteq> [] \<and> list_all isLabel ls \<and> isTopLevel tld)"

definition zod_email :: "string \<Rightarrow> bool" where
  "zod_email s =
     (case splitAt (CHR ''@'') s of
        [l, d] \<Rightarrow> isLocalPart l \<and> isDomain d
      | _ \<Rightarrow> False)"

subsection \<open>The meeting cost\<close>

text \<open>
  \<^verbatim>\<open>Number.parseInt(string)\<close> with no radix: leading white space is skipped, one sign is
  read, a prefix \<^verbatim>\<open>0x\<close> or \<^verbatim>\<open>0X\<close> selects base 16 and otherwise the base is 10, and the
  longest run of digits is the value; with no digit the result is \<^verbatim>\<open>NaN\<close>, here
  \<^term>\<open>None\<close>. The value is the exact integer (the number JavaScript returns as long as
  it is below \<open>2 ^ 53\<close>). The white space is that of the language among the code units
  a \<^typ>\<open>char\<close> can hold: tab, line feed, vertical tab, form feed, carriage return,
  space and the no-break space.
\<close>

definition isWhiteSpace :: "char \<Rightarrow> bool" where
  "isWhiteSpace c =
     (c \<in> set [CHR 0x09, CHR 0x0A, CHR 0x0B, CHR 0x0C, CHR 0x0D, CHR 0x20, CHR 0xA0])"

definition digitValue :: "char \<Rightarrow> nat option" where
  "digitValue c =
     (let k = (of_char c :: nat)
      in if 48 \<le> k \<and> k \<le> 57 then Some (k - 48)
         else if 97 \<le> k \<and> k \<le> 102 then Some (k - 87)
         else if 65 \<le> k \<and> k \<le> 70 then Some (k - 55)
         else None)"

definition radixDigit :: "nat \<Rightarrow> char \<Rightarrow> nat option" where
  "radixDigit R c =
     (case digitValue c of
        None \<Rightarrow> None
      | Some v \<Rightarrow> if v < R then Some v else None)"

fun parseDigits :: "nat \<Rightarrow> string \<Rightarrow> nat option \<Rightarrow> nat option" where
  "parseDigits R [] acc = acc"
| "parseDigits R (c # cs) acc =
     (case radixDigit R c of
        None \<Rightarrow> acc
      | Some v \<Rightarrow> parseDigits R cs (Some (case acc of None \<Rightarrow> v | Some a \<Rightarrow> a * R + v)))"

definition parseInt :: "string \<Rightarrow> int option" where
  "parseInt str =
     (let S = dropWhile isWhiteSpace str;
          sign = (if take 1 S = ''-'' then - 1 else 1);
          S1 = (if take 1 S = ''-'' \<or> take 1 S = ''+'' then drop 1 S else S);
          hex = (take 2 S1 = ''0x'' \<or> take 2 S1 = ''0X'');
          R = (if hex then 16 else 10);
          S2 = (if hex then drop 2 S1 else S1)
      in map_option (\<lambda>m. sign * int m) (parseDigits R S2 None))"

definition averageHourlyRate :: rat where
  "averageHourlyRate = 100"

text \<open>
  The body of the effect, lines 109 to 112. \<^verbatim>\<open>form.watch("duration") || "0"\<close> replaces
  \<^verbatim>\<open>undefined\<close> and the empty string by \<^verbatim>\<open>"0"\<close>. The arithmetic is the exact one of
  the rationals: it is the arithmetic of JavaScript's numbers wherever no operation
  rounds (\<open>computeCost_no_rounding\<close> below shows this for the durations the form offers).
  \<^term>\<open>None\<close> is \<^verbatim>\<open>NaN\<close>.
\<close>

definition computeCost :: "nat \<Rightarrow> string option \<Rightarrow> rat option" where
  "computeCost participantsCount watched =
     (let arg = (case watched of None \<Rightarrow> ''0'' | Some v \<Rightarrow> if v = [] then ''0'' else v)
      in case parseInt arg of
           None \<Rightarrow> None
         | Some dur \<Rightarrow>
             Some (of_nat participantsCount * (of_int dur / 60) * averageHourlyRate))"

subsection \<open>The calendar\<close>

text \<open>
  \<^verbatim>\<open>new Date("1900-01-01")\<close> is midnight UTC of the first day of 1900: the time of a year
  is \<open>msPerDay * DayFromYear(y)\<close> in the language definition.
\<close>

definition msPerDay :: int where
  "msPerDay = 86400000"

definition dayFromYear :: "int \<Rightarrow> int" where
  "dayFromYear y =
     365 * (y - 1970) + (y - 1969) div 4 - (y - 1901) div 100 + (y - 1601) div 400"

definition date_1900_01_01 :: int where
  "date_1900_01_01 = msPerDay * dayFromYear 1900"

text \<open>
  \<^verbatim>\<open>disabled={(date) => date < new Date() || date < new Date("1900-01-01")}\<close>, with
  \<open>now\<close> the value of \<^verbatim>\<open>new Date()\<close> when the calendar asks.
\<close>

definition disabled :: "int \<Rightarrow> int \<Rightarrow> bool" where
  "disabled now d = (d < now \<or> d < date_1900_01_01)"

subsection \<open>The component\<close>

text \<open>
  The form values and the five \<^verbatim>\<open>useState\<close> cells, lines 89 to 105. \<open>meetingCost\<close> is
  a number: \<^term>\<open>None\<close> is \<^verbatim>\<open>NaN\<close>.
\<close>

record state =
  form :: draft
  suggestedTimes :: "string list"
  selectedTime :: string
  loading :: bool
  isDarkMode :: bool
  meetingCost :: "rat option"

definition initialState :: state where
  "initialState =
     \<lparr>form = defaultValues, suggestedTimes = [], selectedTime = '''', loading = False,
      isDarkMode = False, meetingCost = Some 0\<rparr>"

text \<open>
  The body of the request, \<^verbatim>\<open>{ participants, duration, timezone }\<close> of the values, in
  this order.
\<close>

datatype request = Request "string list" "string option" "string option"

text \<open>How the awaited response ends: the decoded array, or a rejection caught by \<^verbatim>\<open>catch\<close>.\<close>

datatype failure = TransportError | DecodeError

datatype outcome = Resolved "string list" | Rejected failure

text \<open>
  What reaches the outside: the \<^verbatim>\<open>fetch\<close>, \<^verbatim>\<open>console.error\<close>, \<^verbatim>\<open>confetti\<close>,
  \<^verbatim>\<open>console.log\<close>, and the messages the form shows when the resolver reports issues.
\<close>

datatype event =
    Fetch request
  | ConsoleError failure
  | Confetti
  | ConsoleLog scheduled
  | FieldErrors "issue list"

fun isFetch :: "event \<Rightarrow> bool" where
  "isFetch (Fetch _) = True"
| "isFetch _ = False"

fun isFinalize :: "event \<Rightarrow> bool" where
  "isFinalize Confetti = True"
| "isFinalize (ConsoleLog _) = True"
| "isFinalize _ = False"

fun isFieldErrors :: "event \<Rightarrow> bool" where
  "isFieldErrors (FieldErrors _) = True"
| "isFieldErrors _ = False"

text \<open>The effect of lines 108 to 114: its body, and its run after a render.\<close>

definition costEffect :: "state \<Rightarrow> state" where
  "costEffect s =
     s\<lparr>meetingCost := computeCost (length (participants (form s))) (duration (form s))\<rparr>"

text \<open>
  After the first render the effect runs once. Later it runs when one of its dependencies
  \<^verbatim>\<open>form.watch("participants")\<close>, \<^verbatim>\<open>form.watch("duration")\<close> differs from the render before.
  (A new array with the same entries also counts as different to React; the body then
  stores the value that \<open>meetingCost\<close> already has.)
\<close>

definition mounted :: state where
  "mounted = costEffect initialState"

definition useEffect_cost :: "state \<Rightarrow> state \<Rightarrow> state" where
  "useEffect_cost prev s =
     (if participants (form s) \<noteq> participants (form prev) \<or>
         duration (form s) \<noteq> duration (form prev)
      then costEffect s else s)"

text \<open>
  \<^verbatim>\<open>getSuggestedTimes\<close>, lines 116 to 136, in the two parts the \<^verbatim>\<open>await\<close> cuts it into:
  up to the request, and from the settled response to the end. Other handlers can run
  in between, so the second part takes the state of that moment.
\<close>

definition getSuggestedTimes_start :: "draft \<Rightarrow> state \<Rightarrow> state \<times> event list" where
  "getSuggestedTimes_start values s =
     (s\<lparr>loading := True\<rparr>,
      [Fetch (Request (participants values) (duration values) (timezone values))])"

definition getSuggestedTimes_settle :: "outcome \<Rightarrow> state \<Rightarrow> state \<times> event list" where
  "getSuggestedTimes_settle out s =
     (case out of
        Resolved labels \<Rightarrow> (s\<lparr>suggestedTimes := labels\<rparr>\<lparr>loading := False\<rparr>, [])
      | Rejected e \<Rightarrow> (s\<lparr>loading := False\<rparr>, [ConsoleError e]))"

text \<open>A whole run of \<^verbatim>\<open>getSuggestedTimes\<close> with nothing in between.\<close>

definition getSuggestedTimes :: "outcome \<Rightarrow> draft \<Rightarrow> state \<Rightarrow> state \<times> event list" where
  "getSuggestedTimes out values s =
     (let (s1, ev1) = getSuggestedTimes_start values s;
          (s2, ev2) = getSuggestedTimes_settle out s1
      in (s2, ev1 @ ev2))"

text \<open>
  \<^verbatim>\<open>onSubmit\<close>, lines 138 to 152, up to the point where it waits for the response or
  returns. \<^verbatim>\<open>!selectedTime\<close> holds exactly for the empty string.
\<close>

definition onSubmit :: "draft \<Rightarrow> state \<Rightarrow> state \<times> event list" where
  "onSubmit values s =
     (if selectedTime s = [] then getSuggestedTimes_start values s
      else (s, [Confetti,
                ConsoleLog \<lparr>title = title values, description = description values,
                            date = date values, duration = duration values,
                            participants = participants values, timezone = timezone values,
                            priority = priority values, themeColor = themeColor values,
                            time = selectedTime s\<rparr>]))"

text \<open>
  \<^verbatim>\<open>form.handleSubmit(onSubmit)\<close> with the zod resolver: the values are parsed; with
  issues the messages are shown and \<^verbatim>\<open>onSubmit\<close> is not called, otherwise it is called
  with the parsed values.
\<close>

definition handleSubmit :: "(string \<Rightarrow> bool) \<Rightarrow> state \<Rightarrow> state \<times> event list" where
  "handleSubmit email s =
     (case formSchema email (form s) of
        Inl issues \<Rightarrow> (s, [FieldErrors issues])
      | Inr values \<Rightarrow> onSubmit values s)"

text \<open>\<^verbatim>\<open>applyTemplate\<close>, lines 154 to 158: three calls of \<^verbatim>\<open>form.setValue\<close>.\<close>

definition setValue_duration :: "string \<Rightarrow> draft \<Rightarrow> draft" where
  "setValue_duration v d = d\<lparr>duration := Some v\<rparr>"

definition setValue_description :: "string \<Rightarrow> draft \<Rightarrow> draft" where
  "setValue_description v d = d\<lparr>description := Some v\<rparr>"

definition setValue_priority :: "string \<Rightarrow> draft \<Rightarrow> draft" where
  "setValue_priority v d = d\<lparr>priority := v\<rparr>"

definition applyTemplate :: "template \<Rightarrow> draft \<Rightarrow> draft" where
  "applyTemplate t d =
     setValue_priority (t_priority t)
       (setValue_description (t_description t) (setValue_duration (t_duration t) d))"


text \<open>The participant handlers written inline, lines 347 to 374.\<close>

definition changeParticipant :: "nat \<Rightarrow> string \<Rightarrow> string list \<Rightarrow> string list" where
  "changeParticipant index v ps = ps[index := v]"

definition removeParticipant :: "nat \<Rightarrow> string list \<Rightarrow> string list" where
  "removeParticipant index ps = map snd (filter (\<lambda>(i, p). i \<noteq> index) (enumerate 0 ps))"

definition addParticipant :: "string list \<Rightarrow> string list" where
  "addParticipant ps = ps @ ['''']"

subsection \<open>The events of the page\<close>

text \<open>
  One constructor for each handler the JSX attaches, and \<open>Settle\<close> for the response of
  the request in flight. \<open>SelectDay now d\<close> is the calendar's \<^verbatim>\<open>onSelect\<close> at clock value
  \<open>now\<close>, with \<^term>\<open>None\<close> for a day taken back.
\<close>

datatype action =
    ChangeTitle string
  | ChangePriority string
  | ChangeDescription string
  | SelectDay int "int option"
  | ChangeDuration string
  | ChangeParticipant nat string
  | RemoveParticipant nat
  | AddParticipant
  | PickThemeColor string
  | ClickTemplate template
  | ClickTime string
  | ToggleDarkMode
  | Submit
  | Settle outcome

text \<open>
  An action that the page does not offer in a state leaves it as it is: a choice outside
  the options of a selector, a disabled day, an input that is not rendered, a badge that
  is not shown, the submit button while \<open>loading\<close> (\<^verbatim>\<open>disabled={loading}\<close>), a response
  with no request in flight.
\<close>

fun handle :: "(string \<Rightarrow> bool) \<Rightarrow> action \<Rightarrow> state \<Rightarrow> state \<times> event list" where
  "handle email (ChangeTitle v) s = (s\<lparr>form := (form s)\<lparr>title := v\<rparr>\<rparr>, [])"
| "handle email (ChangePriority v) s =
     (if v \<in> set [''low'', ''medium'', ''high'']
      then (s\<lparr>form := (form s)\<lparr>priority := v\<rparr>\<rparr>, []) else (s, []))"
| "handle email (ChangeDescription v) s = (s\<lparr>form := (form s)\<lparr>description := Some v\<rparr>\<rparr>, [])"
| "handle email (SelectDay now d) s =
     (case d of
        None \<Rightarrow> (s\<lparr>form := (form s)\<lparr>date := None\<rparr>\<rparr>, [])
      | Some day \<Rightarrow>
          if disabled now day then (s, [])
          else (s\<lparr>form := (form s)\<lparr>date := Some day\<rparr>\<rparr>, []))"
| "handle email (ChangeDuration v) s =
     (if v \<in> set (map fst durations)
      then (s\<lparr>form := (form s)\<lparr>duration := Some v\<rparr>\<rparr>, []) else (s, []))"
| "handle email (ChangeParticipant index v) s =
     (if index < length (participants (form s))
      then (s\<lparr>form := (form s)\<lparr>participants :=
                changeParticipant index v (participants (form s))\<rparr>\<rparr>, [])
      else (s, []))"
| "handle email (RemoveParticipant index) s =
     (if index < length (participants (form s))
      then (s\<lparr>form := (form s)\<lparr>participants :=
                removeParticipant index (participants (form s))\<rparr>\<rparr>, [])
      else (s, []))"
| "handle email AddParticipant s =
     (s\<lparr>form := (form s)\<lparr>participants := addParticipant (participants (form s))\<rparr>\<rparr>, [])"
| "handle email (PickThemeColor v) s =
     (if v \<in> set (map snd themeColors)
      then (s\<lparr>form := (form s)\<lparr>themeColor := v\<rparr>\<rparr>, []) else (s, []))"
| "handle email (ClickTemplate t) s =
     (if t \<in> set meetingTemplates
      then (s\<lparr>form := applyTemplate t (form s)\<rparr>, []) else (s, []))"
| "handle email (ClickTime t) s =
     (if t \<in> set (suggestedTimes s) then (s\<lparr>selectedTime := t\<rparr>, []) else (s, []))"
| "handle email ToggleDarkMode s = (s\<lparr>isDarkMode := \<not> isDarkMode s\<rparr>, [])"
| "handle email Submit s = (if loading s then (s, []) else handleSubmit email s)"
| "handle email (Settle out) s =
     (if loading s then getSuggestedTimes_settle out s else (s, []))"

text \<open>A handler, then the render with its effect.\<close>

definition step :: "(string \<Rightarrow> bool) \<Rightarrow> action \<Rightarrow> state \<Rightarrow> state \<times> event list" where
  "step email a s = (let (s', evs) = handle email a s in (useEffect_cost s s', evs))"

text \<open>A sequence of actions from a state: the last state and everything emitted.\<close>

fun run :: "(string \<Rightarrow> bool) \<Rightarrow> action list \<Rightarrow> state \<Rightarrow> state \<times> event list" where
  "run email [] s = (s, [])"
| "run email (a # as) s =
     (let (s1, ev1) = step email a s; (s2, ev2) = run email as s1 in (s2, ev1 @ ev2))"

subsection \<open>Sample values\<close>

text \<open>
  Values that pass the schema with the library's email check, and two states holding
  them: before any suggestion was asked for, and with the label "2:00 PM" chosen among
  the suggestions "10:00 AM" and "2:00 PM".
\<close>

definition sampleValues :: draft where
  "sampleValues =
     \<lparr>title = ''Sync'', description = Some ''Weekly'', date = Some 1800000000000,
      duration = Some ''60'', participants = [''a@b.com'', ''c@d.org''],
      timezone = Some ''UTC'', priority = ''medium'', themeColor = ''blue''\<rparr>"

definition sampleEditing :: state where
  "sampleEditing =
     \<lparr>form = sampleValues, suggestedTimes = [], selectedTime = '''', loading = False,
      isDarkMode = False, meetingCost = Some 200\<rparr>"

definition sampleChosen :: state where
  "sampleChosen =
     \<lparr>form = sampleValues, suggestedTimes = [''10:00 AM'', ''2:00 PM''],
      selectedTime = ''2:00 PM'', loading = False, isDarkMode = False,
      meetingCost = Some 200\<rparr>"



subsection \<open>Numbers that need no rounding\<close>

text \<open>
  A JavaScript number represents every \<open>k / 4\<close> with \<open>\<bar>k\<bar> < 2 ^ 53\<close> exactly, and an
  arithmetic operation whose exact result is representable returns that result.
\<close>

definition quarterExact :: "rat \<Rightarrow> bool" where
  "quarterExact q = (let k = \<lfloor>q * 4\<rfloor> in of_int k = q * 4 \<and> \<bar>k\<bar> < 2 ^ 53)"

section \<open>Properties\<close>

subsection \<open>Auxiliary facts\<close>

lemma date_1900_01_01_value: "date_1900_01_01 = - 2208988800000"
  by (simp add: date_1900_01_01_def msPerDay_def dayFromYear_def)

lemma zod_email_empty: "\<not> zod_email []"
  by (simp add: zod_email_def)

lemma zod_email_example: "zod_email ''a@b.com''"
  by (simp add: zod_email_def isLocalPart_def isDomain_def isLabel_def isTopLevel_def
      isLocalEnd_def isLocalChar_def isAlnum_def isLetter_def isDigit_def)

lemma zod_email_example2: "zod_email ''c@d.org''"
  by (simp add: zod_email_def isLocalPart_def isDomain_def isLabel_def isTopLevel_def
      isLocalEnd_def isLocalChar_def isAlnum_def isLetter_def isDigit_def)

lemma zod_email_not_an_email: "\<not> zod_email ''not-an-email''"
  by (simp add: zod_email_def)

lemma parseInt_durations:
  "parseInt ''0'' = Some 0" "parseInt ''15'' = Some 15" "parseInt ''30'' = Some 30"
  "parseInt ''45'' = Some 45" "parseInt ''60'' = Some 60"
  by (simp_all add: parseInt_def isWhiteSpace_def radixDigit_def digitValue_def)

lemma computeCost_absent: "computeCost n None = Some 0"
  by (simp add: computeCost_def parseInt_durations)

lemma sampleValues_valid: "formSchema zod_email sampleValues = Inr sampleValues"
  by (simp add: formSchema_def formSchema_issues_def title_issues_def description_issues_def
      date_issues_def duration_issues_def participants_issues_def timezone_issues_def
      priority_issues_def themeColor_issues_def sampleValues_def
      zod_email_example zod_email_example2)

text \<open>A successful parse hands back the values it was given.\<close>

lemma formSchema_Inr: "formSchema email v = Inr w \<Longrightarrow> w = v \<and> formSchema_issues email v = []"
  by (auto simp: formSchema_def Let_def split: if_splits)

lemma formSchema_Inl:
  "formSchema_issues email v \<noteq> [] \<Longrightarrow> formSchema email v = Inl (formSchema_issues email v)"
  by (simp add: formSchema_def Let_def)

text \<open>The effect leaves everything but \<open>meetingCost\<close> alone.\<close>

lemma useEffect_cost_frame:
  "form (useEffect_cost p s) = form s"
  "suggestedTimes (useEffect_cost p s) = suggestedTimes s"
  "selectedTime (useEffect_cost p s) = selectedTime s"
  "loading (useEffect_cost p s) = loading s"
  "isDarkMode (useEffect_cost p s) = isDarkMode s"
  by (simp_all add: useEffect_cost_def costEffect_def)

lemma useEffect_cost_same: "form s = form p \<Longrightarrow> useEffect_cost p s = s"
  by (simp add: useEffect_cost_def)

lemma step_fst: "fst (step email a s) = useEffect_cost s (fst (handle email a s))"
  by (simp add: step_def split: prod.splits)

lemma step_snd: "snd (step email a s) = snd (handle email a s)"
  by (simp add: step_def split: prod.splits)

text \<open>A property kept by every step holds after every sequence of actions.\<close>

lemma run_invariant:
  assumes "\<And>a s. P s \<Longrightarrow> P (fst (step email a s))" and "P s"
  shows "P (fst (run email as s))"
  using assms(2)
proof (induction as arbitrary: s)
  case Nil
  then show ?case by simp
next
  case (Cons a as)
  have "P (fst (step email a s))" using assms(1) Cons.prems by blast
  then have "P (fst (run email as (fst (step email a s))))" by (rule Cons.IH)
  then show ?case by (simp add: split_beta)
qed

subsection \<open>The calendar's rule for days\<close>

text \<open>
  Claim C8. The calendar refuses a day before the current instant and a day before
  1900-01-01; once the current instant is on or after 1900-01-01 the second test adds
  nothing: a day is refused exactly when it is before the current instant.
\<close>

theorem disabled_1900_bound_dead:
  "(d < now \<longrightarrow> disabled now d) \<and>
   (d < date_1900_01_01 \<longrightarrow> disabled now d) \<and>
   (date_1900_01_01 \<le> now \<longrightarrow> disabled now d = (d < now))"
  by (auto simp: disabled_def)

theorem disabled_1900_bound_dead_witness:
  "(- 3000000000000 :: int) < 1793700000000 \<and>
   - 3000000000000 < date_1900_01_01 \<and>
   date_1900_01_01 \<le> 1793700000000 \<and>
   disabled 1793700000000 (- 3000000000000) \<and>
   disabled 1793700000000 (- 3000000000000) = ((- 3000000000000 :: int) < 1793700000000)"
  using disabled_1900_bound_dead [of "- 3000000000000" 1793700000000]
  by (simp add: date_1900_01_01_value)

subsection \<open>Templates\<close>

text \<open>
  Claim C5. Applying a template writes its duration, description and priority into the
  form values and leaves title, date, participants, timezone and themeColor as they
  were; the table holds the three templates Quick Sync, Team Planning and Client
  Presentation, and Quick Sync sets duration "15", description "Brief alignment
  meeting" and priority "low".
\<close>

theorem applyTemplate_overwrites_three_fields:
  "applyTemplate t d =
     d\<lparr>description := Some (t_description t), duration := Some (t_duration t),
       priority := t_priority t\<rparr> \<and>
   title (applyTemplate t d) = title d \<and>
   date (applyTemplate t d) = date d \<and>
   participants (applyTemplate t d) = participants d \<and>
   timezone (applyTemplate t d) = timezone d \<and>
   themeColor (applyTemplate t d) = themeColor d \<and>
   map name meetingTemplates = [''Quick Sync'', ''Team Planning'', ''Client Presentation''] \<and>
   duration (applyTemplate quickSync d) = Some ''15'' \<and>
   description (applyTemplate quickSync d) = Some ''Brief alignment meeting'' \<and>
   priority (applyTemplate quickSync d) = ''low'' \<and>
   duration (applyTemplate teamPlanning d) = Some ''60'' \<and>
   description (applyTemplate teamPlanning d) = Some ''Detailed team planning session'' \<and>
   priority (applyTemplate teamPlanning d) = ''medium'' \<and>
   duration (applyTemplate clientPresentation d) = Some ''45'' \<and>
   description (applyTemplate clientPresentation d) = Some ''Important client meeting'' \<and>
   priority (applyTemplate clientPresentation d) = ''high''"
  by (simp add: applyTemplate_def setValue_duration_def setValue_description_def
      setValue_priority_def meetingTemplates_def quickSync_def teamPlanning_def
      clientPresentation_def)

subsection \<open>A failed request\<close>

text \<open>
  Claim C4. When the awaited response is rejected (transport or decoding), the error
  goes to the console and nothing else happens but the clearing of \<open>loading\<close>: the
  suggested times stay as they were and no message is shown. \<open>loading\<close> is cleared
  whatever the outcome, in a run of the operation by itself as well as when other
  handlers ran while the request was in flight.
\<close>

theorem getSuggestedTimes_failure_swallowed:
  "getSuggestedTimes_settle (Rejected e) s = (s\<lparr>loading := False\<rparr>, [ConsoleError e]) \<and>
   suggestedTimes (fst (getSuggestedTimes_settle (Rejected e) s)) = suggestedTimes s \<and>
   filter isFieldErrors (snd (getSuggestedTimes_settle (Rejected e) s)) = [] \<and>
   \<not> loading (fst (getSuggestedTimes_settle out s)) \<and>
   getSuggestedTimes (Rejected e) values s =
     (s\<lparr>loading := False\<rparr>,
      [Fetch (Request (participants values) (duration values) (timezone values)),
       ConsoleError e]) \<and>
   \<not> loading (fst (getSuggestedTimes out values s)) \<and>
   \<not> loading (fst (step email (Settle out) s)) \<and>
   suggestedTimes (fst (step email (Settle (Rejected e)) s)) = suggestedTimes s \<and>
   filter isFieldErrors (snd (step email (Settle (Rejected e)) s)) = []"
  by (cases out)
    (simp_all add: getSuggestedTimes_settle_def getSuggestedTimes_def
      getSuggestedTimes_start_def step_fst step_snd useEffect_cost_frame)

subsection \<open>Submitting\<close>

text \<open>
  Claim C3. With an empty list of participants a submit fails validation: the message
  "At least one participant is required" is reported for the participants, \<open>onSubmit\<close>
  is not called, the state stays as it is and no request is sent.
\<close>

theorem empty_participants_rejected:
  assumes "participants (form s) = []"
  shows "handleSubmit email s = (s, [FieldErrors (formSchema_issues email (form s))]) \<and>
         Issue [Key ''participants''] (Message ''At least one participant is required'')
           \<in> set (formSchema_issues email (form s)) \<and>
         fst (step email Submit s) = s \<and>
         filter isFetch (snd (step email Submit s)) = []"
proof -
  have mem: "Issue [Key ''participants''] (Message ''At least one participant is required'')
               \<in> set (formSchema_issues email (form s))"
    using assms by (simp add: formSchema_issues_def participants_issues_def)
  then have "formSchema_issues email (form s) \<noteq> []" by auto
  then have parse: "formSchema email (form s) = Inl (formSchema_issues email (form s))"
    by (rule formSchema_Inl)
  then have hs: "handleSubmit email s = (s, [FieldErrors (formSchema_issues email (form s))])"
    by (simp add: handleSubmit_def)
  have "fst (step email Submit s) = s"
    by (simp add: step_fst hs useEffect_cost_same)
  moreover have "filter isFetch (snd (step email Submit s)) = []"
    by (simp add: step_snd hs)
  ultimately show ?thesis using mem hs by simp
qed

theorem empty_participants_rejected_witness:
  "participants (form (initialState\<lparr>form := defaultValues\<lparr>participants := []\<rparr>\<rparr>)) = [] \<and>
   Issue [Key ''participants''] (Message ''At least one participant is required'')
     \<in> set (formSchema_issues zod_email
              (form (initialState\<lparr>form := defaultValues\<lparr>participants := []\<rparr>\<rparr>))) \<and>
   filter isFetch
     (snd (step zod_email Submit (initialState\<lparr>form := defaultValues\<lparr>participants := []\<rparr>\<rparr>)))
     = []"
  using empty_participants_rejected
    [of "initialState\<lparr>form := defaultValues\<lparr>participants := []\<rparr>\<rparr>" zod_email]
  by simp

text \<open>
  Claim C1. When the form values pass the schema, a submit with no time selected
  (\<open>selectedTime\<close> is the empty string, as it is until a label is clicked) sends
  exactly one request (for the participants, duration and timezone of the values),
  sets \<open>loading\<close> and does not finalize; what follows when the response settles
  sends no further request and does not finalize either. A submit with a time selected
  finalizes: it logs the record made of the form values, each as it was entered, and
  \<open>time\<close>, the selected label.
\<close>

theorem submit_two_phases:
  assumes "formSchema email (form s) = Inr values"
  shows "values = form s \<and>
         (selectedTime s = [] \<longrightarrow>
            handleSubmit email s =
              (s\<lparr>loading := True\<rparr>,
               [Fetch (Request (participants (form s)) (duration (form s))
                         (timezone (form s)))]) \<and>
            length (filter isFetch (snd (handleSubmit email s))) = 1 \<and>
            filter isFinalize (snd (handleSubmit email s)) = [] \<and>
            filter isFetch (snd (getSuggestedTimes_settle out s')) = [] \<and>
            filter isFinalize (snd (getSuggestedTimes_settle out s')) = []) \<and>
         (selectedTime s \<noteq> [] \<longrightarrow>
            handleSubmit email s =
              (s, [Confetti,
                   ConsoleLog \<lparr>title = title (form s), description = description (form s),
                               date = date (form s), duration = duration (form s),
                               participants = participants (form s),
                               timezone = timezone (form s), priority = priority (form s),
                               themeColor = themeColor (form s),
                               time = selectedTime s\<rparr>]))"
proof -
  have v: "values = form s" using assms by (simp add: formSchema_Inr)
  have settle: "filter isFetch (snd (getSuggestedTimes_settle out s')) = [] \<and>
                filter isFinalize (snd (getSuggestedTimes_settle out s')) = []"
    by (cases out) (simp_all add: getSuggestedTimes_settle_def)
  show ?thesis
    using assms v settle
    by (simp add: handleSubmit_def onSubmit_def getSuggestedTimes_start_def)
qed

theorem submit_two_phases_witness:
  "formSchema zod_email (form sampleEditing) = Inr sampleValues \<and>
   selectedTime sampleEditing = [] \<and>
   handleSubmit zod_email sampleEditing =
     (sampleEditing\<lparr>loading := True\<rparr>,
      [Fetch (Request [''a@b.com'', ''c@d.org''] (Some ''60'') (Some ''UTC''))]) \<and>
   formSchema zod_email (form sampleChosen) = Inr sampleValues \<and>
   selectedTime sampleChosen \<noteq> [] \<and>
   handleSubmit zod_email sampleChosen =
     (sampleChosen,
      [Confetti,
       ConsoleLog \<lparr>title = ''Sync'', description = Some ''Weekly'',
                   date = Some 1800000000000, duration = Some ''60'',
                   participants = [''a@b.com'', ''c@d.org''], timezone = Some ''UTC'',
                   priority = ''medium'', themeColor = ''blue'', time = ''2:00 PM''\<rparr>])"
proof -
  have e: "formSchema zod_email (form sampleEditing) = Inr sampleValues"
    by (simp add: sampleEditing_def sampleValues_valid)
  have c: "formSchema zod_email (form sampleChosen) = Inr sampleValues"
    by (simp add: sampleChosen_def sampleValues_valid)
  have fe: "form sampleEditing = sampleValues" "selectedTime sampleEditing = []"
    by (simp_all add: sampleEditing_def)
  have fc: "form sampleChosen = sampleValues" "selectedTime sampleChosen = ''2:00 PM''"
    by (simp_all add: sampleChosen_def)
  show ?thesis
    using submit_two_phases [OF e] submit_two_phases [OF c] e c
    by (simp add: fe fc) (simp add: sampleValues_def)
qed

text \<open>
  Claim C10. A submit that finalizes changes nothing in the state: form values,
  suggested times, selected time and \<open>loading\<close> are as before. Nothing is reset, so a
  second submit finalizes again and logs the same record.
\<close>

theorem finalize_changes_no_state:
  assumes "selectedTime s \<noteq> []" and "formSchema email (form s) = Inr values"
  shows "fst (handleSubmit email s) = s \<and>
         form (fst (handleSubmit email s)) = form s \<and>
         suggestedTimes (fst (handleSubmit email s)) = suggestedTimes s \<and>
         selectedTime (fst (handleSubmit email s)) = selectedTime s \<and>
         loading (fst (handleSubmit email s)) = loading s \<and>
         filter isFinalize (snd (handleSubmit email s)) = snd (handleSubmit email s) \<and>
         (\<exists>r. snd (handleSubmit email s) = [Confetti, ConsoleLog r] \<and>
              draft.truncate r = form s \<and> time r = selectedTime s) \<and>
         handleSubmit email (fst (handleSubmit email s)) = handleSubmit email s \<and>
         (\<not> loading s \<longrightarrow>
            run email [Submit, Submit] s =
              (s, snd (handleSubmit email s) @ snd (handleSubmit email s)))"
proof -
  have v: "values = form s" using assms(2) by (simp add: formSchema_Inr)
  have hs: "handleSubmit email s =
              (s, [Confetti,
                   ConsoleLog \<lparr>title = title (form s), description = description (form s),
                               date = date (form s), duration = duration (form s),
                               participants = participants (form s),
                               timezone = timezone (form s), priority = priority (form s),
                               themeColor = themeColor (form s),
                               time = selectedTime s\<rparr>])"
    using assms v by (simp add: handleSubmit_def onSubmit_def)
  have st: "\<not> loading s \<Longrightarrow> step email Submit s = (s, snd (handleSubmit email s))"
    by (simp add: step_def hs useEffect_cost_same)
  have "\<not> loading s \<Longrightarrow>
          run email [Submit, Submit] s =
            (s, snd (handleSubmit email s) @ snd (handleSubmit email s))"
    by (simp add: st)
  then show ?thesis
    by (simp add: hs draft.truncate_def)
qed

theorem finalize_changes_no_state_witness:
  "selectedTime sampleChosen \<noteq> [] \<and>
   formSchema zod_email (form sampleChosen) = Inr sampleValues \<and>
   \<not> loading sampleChosen \<and>
   fst (handleSubmit zod_email sampleChosen) = sampleChosen \<and>
   run zod_email [Submit, Submit] sampleChosen =
     (sampleChosen,
      snd (handleSubmit zod_email sampleChosen) @ snd (handleSubmit zod_email sampleChosen))"
proof -
  have c: "formSchema zod_email (form sampleChosen) = Inr sampleValues"
    by (simp add: sampleChosen_def sampleValues_valid)
  have n: "selectedTime sampleChosen \<noteq> []" and l: "\<not> loading sampleChosen"
    by (simp_all add: sampleChosen_def)
  show ?thesis
    using finalize_changes_no_state [OF n c] c n l by simp
qed

subsection \<open>The values on mount\<close>

text \<open>
  Claim C9. On mount the participants are the list with the one entry "", not the empty
  list: the rule of at least one participant is met, and, the empty string being no
  email address, a submit of the untouched form reports an invalid email for entry 0.
  The other defaults are title "", description "", timezone "UTC", priority "medium",
  themeColor "blue"; date and duration are absent.
\<close>

theorem defaultValues_on_mount:
  assumes "\<not> email []"
  shows "form mounted = defaultValues \<and>
         participants (form mounted) = [''''] \<and>
         participants (form mounted) \<noteq> [] \<and>
         1 \<le> length (participants (form mounted)) \<and>
         participants_issues email (participants (form mounted)) =
           [Issue [Key ''participants'', Index 0] InvalidEmail] \<and>
         handleSubmit email mounted =
           (mounted, [FieldErrors (formSchema_issues email (form mounted))]) \<and>
         Issue [Key ''participants'', Index 0] InvalidEmail
           \<in> set (formSchema_issues email (form mounted)) \<and>
         Issue [Key ''participants''] (Message ''At least one participant is required'')
           \<notin> set (formSchema_issues email (form mounted)) \<and>
         title (form mounted) = '''' \<and>
         description (form mounted) = Some '''' \<and>
         timezone (form mounted) = Some ''UTC'' \<and>
         priority (form mounted) = ''medium'' \<and>
         themeColor (form mounted) = ''blue'' \<and>
         date (form mounted) = None \<and>
         duration (form mounted) = None"
proof -
  have f: "form mounted = defaultValues"
    by (simp add: mounted_def costEffect_def initialState_def)
  have p: "participants_issues email (participants defaultValues) =
             [Issue [Key ''participants'', Index 0] InvalidEmail]"
    using assms by (simp add: participants_issues_def defaultValues_def)
  have i: "formSchema_issues email defaultValues =
             [Issue [Key ''title''] (Message ''Meeting title must be at least 2 characters.''),
              Issue [Key ''date''] (Message ''A date is required.''),
              Issue [Key ''duration''] (Message ''Please select meeting duration''),
              Issue [Key ''participants'', Index 0] InvalidEmail]"
    using assms
    by (simp add: formSchema_issues_def title_issues_def description_issues_def
        date_issues_def duration_issues_def participants_issues_def timezone_issues_def
        priority_issues_def themeColor_issues_def defaultValues_def)
  have h: "handleSubmit email mounted =
             (mounted, [FieldErrors (formSchema_issues email (form mounted))])"
    by (simp add: handleSubmit_def f formSchema_def i)
  show ?thesis
    by (simp add: h) (simp add: f p i, simp add: defaultValues_def)
qed

theorem defaultValues_on_mount_witness:
  "\<not> zod_email [] \<and>
   participants (form mounted) = [''''] \<and>
   handleSubmit zod_email mounted =
     (mounted, [FieldErrors (formSchema_issues zod_email (form mounted))]) \<and>
   Issue [Key ''participants'', Index 0] InvalidEmail
     \<in> set (formSchema_issues zod_email (form mounted))"
  using defaultValues_on_mount [of zod_email] zod_email_empty by blast

subsection \<open>The meeting cost\<close>

lemma quarterExactI: "q = of_int k / 4 \<Longrightarrow> \<bar>k\<bar> < 2 ^ 53 \<Longrightarrow> quarterExact q"
  by (simp add: quarterExact_def)

text \<open>
  For the four durations of the selector and a list of fewer than \<open>2 ^ 32\<close> entries (the
  bound of a JavaScript array) the quotient, the first product and the second product
  are all representable: no operation of the effect rounds, and its result is the
  rational computed by \<open>computeCost\<close>.
\<close>

lemma computeCost_no_rounding:
  assumes "n < 2 ^ 32" and "d \<in> {15, 30, 45, 60}"
  shows "quarterExact (of_int d / 60) \<and>
         quarterExact (of_nat n * (of_int d / 60)) \<and>
         quarterExact (of_nat n * (of_int d / 60) * averageHourlyRate)"
proof -
  have n: "int n < 4294967296" using assms(1) by simp
  obtain m :: int where m: "d = 15 * m" "1 \<le> m" "m \<le> 4"
    using assms(2) by auto
  have q: "(of_int d / 60 :: rat) = of_int m / 4" using m(1) by simp
  have p: "0 \<le> int n * m" "int n * m \<le> 17179869184"
  proof -
    show "0 \<le> int n * m" using m by simp
    have "int n * m \<le> 4294967296 * 4" using n m by (intro mult_mono) auto
    then show "int n * m \<le> 17179869184" by simp
  qed
  have "quarterExact (of_int m / 4)"
    using m by (intro quarterExactI [of _ m]) auto
  moreover have "quarterExact (of_nat n * (of_int m / 4))"
  proof (rule quarterExactI [of _ "int n * m"])
    show "(of_nat n * (of_int m / 4) :: rat) = of_int (int n * m) / 4" by simp
    show "\<bar>int n * m\<bar> < 2 ^ 53" using p by simp
  qed
  moreover have "quarterExact (of_nat n * (of_int m / 4) * averageHourlyRate)"
  proof (rule quarterExactI [of _ "int n * m * 100"])
    show "(of_nat n * (of_int m / 4) * averageHourlyRate :: rat) = of_int (int n * m * 100) / 4"
      by (simp add: averageHourlyRate_def)
    have "\<bar>int n * m * 100\<bar> = int n * m * 100" using p by simp
    also have "\<dots> \<le> 17179869184 * 100" using p by (intro mult_right_mono) auto
    also have "\<dots> < (2 :: int) ^ 53" by simp
    finally show "\<bar>int n * m * 100\<bar> < 2 ^ 53" .
  qed
  ultimately show ?thesis by (simp add: q)
qed

lemma handle_meetingCost: "meetingCost (fst (handle email a s)) = meetingCost s"
  by (cases a)
    (auto simp: handleSubmit_def onSubmit_def getSuggestedTimes_start_def
      getSuggestedTimes_settle_def split: sum.splits option.splits outcome.splits)

lemma step_meetingCost:
  assumes "meetingCost s = computeCost (length (participants (form s))) (duration (form s))"
  shows "meetingCost (fst (step email a s)) =
           computeCost (length (participants (form (fst (step email a s)))))
             (duration (form (fst (step email a s))))"
proof -
  let ?h = "fst (handle email a s)"
  show ?thesis
  proof (cases "participants (form ?h) \<noteq> participants (form s) \<or>
                duration (form ?h) \<noteq> duration (form s)")
    case True
    then show ?thesis by (simp add: step_fst useEffect_cost_def costEffect_def)
  next
    case False
    then have "useEffect_cost s ?h = ?h" by (simp add: useEffect_cost_def)
    then show ?thesis using False assms by (simp add: step_fst handle_meetingCost)
  qed
qed

lemma mounted_meetingCost:
  "meetingCost mounted =
     computeCost (length (participants (form mounted))) (duration (form mounted))"
  by (simp add: mounted_def costEffect_def)

text \<open>
  Claim C2. For every number \<open>n\<close> of participants and each duration 15, 30, 45, 60 of
  the selector the cost is \<open>n * (d / 60) * 100\<close> (300 for three participants and 60
  minutes). The effect stores a function of the length of the participants and of the
  duration, and after every sequence of actions since mount the stored cost is that
  function of the current values: it is recomputed whenever one of the two changes.
\<close>

theorem meetingCost_recomputed:
  "computeCost n (Some ''15'') = Some (of_nat n * (15 / 60) * 100) \<and>
   computeCost n (Some ''30'') = Some (of_nat n * (30 / 60) * 100) \<and>
   computeCost n (Some ''45'') = Some (of_nat n * (45 / 60) * 100) \<and>
   computeCost n (Some ''60'') = Some (of_nat n * (60 / 60) * 100) \<and>
   map fst durations = [''15'', ''30'', ''45'', ''60''] \<and>
   computeCost 3 (Some ''60'') = Some 300 \<and>
   meetingCost (costEffect s) =
     computeCost (length (participants (form s))) (duration (form s)) \<and>
   meetingCost (fst (run email as mounted)) =
     computeCost (length (participants (form (fst (run email as mounted)))))
       (duration (form (fst (run email as mounted))))"
proof -
  have inv: "meetingCost (fst (run email as mounted)) =
     computeCost (length (participants (form (fst (run email as mounted)))))
       (duration (form (fst (run email as mounted))))"
    by (rule run_invariant
        [where P = "\<lambda>s. meetingCost s =
                      computeCost (length (participants (form s))) (duration (form s))"])
      (simp_all add: step_meetingCost mounted_meetingCost)
  show ?thesis
    by (simp add: inv)
      (simp add: computeCost_def parseInt_durations averageHourlyRate_def durations_def
        costEffect_def)
qed

subsection \<open>The duration\<close>

lemma handle_duration:
  assumes "duration (form s) \<in> insert None (Some ` set (map fst durations))"
  shows "duration (form (fst (handle email a s))) \<in> insert None (Some ` set (map fst durations))"
  using assms
  by (cases a)
    (auto simp: handleSubmit_def onSubmit_def getSuggestedTimes_start_def
      getSuggestedTimes_settle_def applyTemplate_def setValue_duration_def
      setValue_description_def setValue_priority_def meetingTemplates_def quickSync_def
      teamPlanning_def clientPresentation_def durations_def
      split: sum.splits option.splits outcome.splits if_splits)

text \<open>
  Claim C7 says that the duration passes validation exactly when it is present and one
  of 15, 30, 45, 60. The schema asks for a string and nothing more: "90" passes, alone
  and in a whole form.
\<close>

theorem duration_outside_set_accepted:
  "duration_issues (Some ''90'') = [] \<and>
   ''90'' \<notin> set (map fst durations) \<and>
   formSchema zod_email (sampleValues\<lparr>duration := Some ''90''\<rparr>) =
     Inr (sampleValues\<lparr>duration := Some ''90''\<rparr>)"
  by (simp add: duration_issues_def durations_def formSchema_def formSchema_issues_def
      title_issues_def description_issues_def date_issues_def participants_issues_def
      timezone_issues_def priority_issues_def themeColor_issues_def sampleValues_def
      zod_email_example zod_email_example2)

text \<open>
  Claim C7, amended. The duration passes validation exactly when it is present, whatever
  string it is. That only 15, 30, 45, 60 occur is the doing of the page: after every
  sequence of actions since mount the duration is absent or one of the values of the
  selector.
\<close>

theorem duration_valid_iff_present:
  "(duration_issues d = []) = (d \<noteq> None) \<and>
   duration_issues None = [Issue [Key ''duration''] (Message ''Please select meeting duration'')] \<and>
   duration (form (fst (run email as mounted)))
     \<in> insert None (Some ` set [''15'', ''30'', ''45'', ''60''])"
proof -
  let ?P = "\<lambda>s. duration (form s) \<in> insert None (Some ` set (map fst durations))"
  have keep: "?P (fst (step email a s))" if "?P s" for a s
    unfolding step_fst useEffect_cost_frame using that by (rule handle_duration)
  have init: "?P mounted"
    by (simp add: mounted_def costEffect_def initialState_def defaultValues_def)
  have "?P (fst (run email as mounted))"
    by (rule run_invariant [where P = ?P, OF keep init])
  then show ?thesis
    by (simp add: duration_issues_def durations_def split: option.splits)
qed

subsection \<open>The selected time\<close>








end
